theory Spec2Isabelle
  imports Main "HOL-Library.Word"
begin

unbundle bit_operations_syntax

section \<open>Alert Notification Service: data model\<close>

text \<open>
  The embedding follows \<^verbatim>\<open>alert_notification_service.h\<close> and
  \<^verbatim>\<open>alert_notification_service.cpp\<close>. Fixed-width members are words; the
  enumerations \<^verbatim>\<open>CategoryId\<close> and \<^verbatim>\<open>CommandId\<close> are their integer values.
  Streams written to \<^verbatim>\<open>std::cout\<close> are left out.
\<close>

type_synonym u8 = "8 word"
type_synonym u16 = "16 word"
type_synonym u32 = "32 word"

text \<open>
  What C++ leaves undefined is a value of the model: an index outside an array or vector,
  and a left shift of an \<^verbatim>\<open>int\<close> by at least its width (32 bits on the target).
\<close>

datatype fault = OutOfBounds nat | ShiftTooWide nat

definition bind_res :: "fault + 'a \<Rightarrow> ('a \<Rightarrow> fault + 'b) \<Rightarrow> fault + 'b" where
  "bind_res m f = (case m of Inl e \<Rightarrow> Inl e | Inr x \<Rightarrow> f x)"

definition ANS_ALERT_CATEGORY_COUNT :: nat where
  "ANS_ALERT_CATEGORY_COUNT = 10"

subsection \<open>enum CategoryId\<close>

definition ANS_TYPE_SIMPLE_ALERT :: nat where "ANS_TYPE_SIMPLE_ALERT = 0"
definition ANS_TYPE_EMAIL :: nat where "ANS_TYPE_EMAIL = 1"
definition ANS_TYPE_NEWS :: nat where "ANS_TYPE_NEWS = 2"
definition ANS_TYPE_NOTIFICATION_CALL :: nat where "ANS_TYPE_NOTIFICATION_CALL = 3"
definition ANS_TYPE_MISSED_CALL :: nat where "ANS_TYPE_MISSED_CALL = 4"
definition ANS_TYPE_SMS_MMS :: nat where "ANS_TYPE_SMS_MMS = 5"
definition ANS_TYPE_VOICE_MAIL :: nat where "ANS_TYPE_VOICE_MAIL = 6"
definition ANS_TYPE_SCHEDULE :: nat where "ANS_TYPE_SCHEDULE = 7"
definition ANS_TYPE_HIGH_PRIORITIZED_ALERT :: nat where "ANS_TYPE_HIGH_PRIORITIZED_ALERT = 8"
definition ANS_TYPE_INSTANT_MESSAGE :: nat where "ANS_TYPE_INSTANT_MESSAGE = 9"
definition ANS_TYPE_ALL_ALERTS :: nat where "ANS_TYPE_ALL_ALERTS = 255"

lemmas CategoryId_defs =
  ANS_TYPE_SIMPLE_ALERT_def ANS_TYPE_EMAIL_def ANS_TYPE_NEWS_def
  ANS_TYPE_NOTIFICATION_CALL_def ANS_TYPE_MISSED_CALL_def ANS_TYPE_SMS_MMS_def
  ANS_TYPE_VOICE_MAIL_def ANS_TYPE_SCHEDULE_def ANS_TYPE_HIGH_PRIORITIZED_ALERT_def
  ANS_TYPE_INSTANT_MESSAGE_def ANS_TYPE_ALL_ALERTS_def

subsection \<open>enum CategoryMaskId\<close>

definition ANS_TYPE_MASK_SIMPLE_ALERT :: u16 where "ANS_TYPE_MASK_SIMPLE_ALERT = push_bit 0 1"
definition ANS_TYPE_MASK_ALL_ALERTS :: u16 where "ANS_TYPE_MASK_ALL_ALERTS = 0x03FF"

subsection \<open>enum CommandId\<close>

definition ANS_ENABLE_NEW_INCOMING_ALERT_NOTIFICATION :: u8 where
  "ANS_ENABLE_NEW_INCOMING_ALERT_NOTIFICATION = 0"
definition ANS_ENABLE_UNREAD_CATEGORY_STATUS_NOTIFICATION :: u8 where
  "ANS_ENABLE_UNREAD_CATEGORY_STATUS_NOTIFICATION = 1"
definition ANS_DISABLE_NEW_INCOMING_ALERT_NOTIFICATION :: u8 where
  "ANS_DISABLE_NEW_INCOMING_ALERT_NOTIFICATION = 2"
definition ANS_DISABLE_UNREAD_CATEGORY_STATUS_NOTIFICATION :: u8 where
  "ANS_DISABLE_UNREAD_CATEGORY_STATUS_NOTIFICATION = 3"
definition ANS_NOTIFY_NEW_INCOMING_ALERT_IMMEDIATELY :: u8 where
  "ANS_NOTIFY_NEW_INCOMING_ALERT_IMMEDIATELY = 4"
definition ANS_NOTIFY_UNREAD_CATEGORY_STATUS_IMMEDIATELY :: u8 where
  "ANS_NOTIFY_UNREAD_CATEGORY_STATUS_IMMEDIATELY = 5"

lemmas CommandId_defs =
  ANS_ENABLE_NEW_INCOMING_ALERT_NOTIFICATION_def
  ANS_ENABLE_UNREAD_CATEGORY_STATUS_NOTIFICATION_def
  ANS_DISABLE_NEW_INCOMING_ALERT_NOTIFICATION_def
  ANS_DISABLE_UNREAD_CATEGORY_STATUS_NOTIFICATION_def
  ANS_NOTIFY_NEW_INCOMING_ALERT_IMMEDIATELY_def
  ANS_NOTIFY_UNREAD_CATEGORY_STATUS_IMMEDIATELY_def

subsection \<open>Category and mask conversion\<close>

text \<open>
  \<^verbatim>\<open>getCategoryIdFromMask\<close>: the loop over \<^verbatim>\<open>ii = 0 .. 9\<close> leaves at the first
  \<^verbatim>\<open>ii\<close> with \<^verbatim>\<open>(mask & (1 << ii)) != 0\<close>; the result is 0 when no bit is found.
\<close>

definition getCategoryIdFromMask :: "u16 \<Rightarrow> nat" where
  "getCategoryIdFromMask msk =
     (case find (\<lambda>ii. msk AND push_bit ii 1 \<noteq> 0) [0..<ANS_ALERT_CATEGORY_COUNT] of
        None \<Rightarrow> 0
      | Some ii \<Rightarrow> ii)"

text \<open>
  \<^verbatim>\<open>getCategoryMaskFromId\<close>: \<^verbatim>\<open>1 << (int)category\<close> is computed on \<^verbatim>\<open>int\<close> and
  the result converted to \<^verbatim>\<open>uint16_t\<close>, which keeps the low 16 bits.
\<close>

definition getCategoryMaskFromId :: "nat \<Rightarrow> fault + u16" where
  "getCategoryMaskFromId category =
     (if category \<noteq> ANS_TYPE_ALL_ALERTS
      then (if category < 32 then Inr (word_of_nat (push_bit category 1))
            else Inl (ShiftTooWide category))
      else Inr ANS_TYPE_MASK_ALL_ALERTS)"

section \<open>Service state\<close>

text \<open>
  \<^verbatim>\<open>alert_status_t\<close> and \<^verbatim>\<open>control_point_t\<close> are unions of a 16-bit value with
  two byte fields; the code reads and writes the fields only.
\<close>

record alert_status_fields =
  as_category :: u8
  as_count :: u8

record control_point_fields =
  cp_command :: u8
  cp_category :: u8

text \<open>
  \<^verbatim>\<open>setCharacteristicValue<T>\<close> hands \<^verbatim>\<open>sizeof(T)\<close> bytes of its argument to
  \<^verbatim>\<open>GattServer::write\<close>; the model keeps the typed value. The server is an external
  collaborator: the state records the sequence of writes it received, oldest first, each
  with the characteristic it was made on.
\<close>

datatype gatt_value = U8 u8 | U16 u16 | U32 u32

type_synonym gatt_write = "nat \<times> gatt_value"

text \<open>
  The members of \<^verbatim>\<open>CAlertNotificationService\<close>. \<^verbatim>\<open>characteristics\<close> is the
  inherited vector of characteristic pointers, a pointer being its address;
  \<^verbatim>\<open>alert_status\<close> is the array of \<^verbatim>\<open>ANS_ALERT_CATEGORY_COUNT\<close> elements.
\<close>

record ans_state =
  connected :: bool
  button_press_count :: u32
  characteristics :: "nat list"
  supported_new_alert_category :: u16
  supported_unread_alert_category :: u16
  enabled_new_alert_category :: u16
  enabled_unread_alert_category :: u16
  alert_status :: "alert_status_fields list"
  control_point :: control_point_fields
  gatt_server :: "gatt_write list"

text \<open>The five index members are set once, by the constructor, and never written again.\<close>

definition supported_new_alert_category_index :: nat where
  "supported_new_alert_category_index = 0"
definition supported_unread_alert_category_index :: nat where
  "supported_unread_alert_category_index = 1"
definition unread_alert_status_index :: nat where
  "unread_alert_status_index = 2"
definition new_alert_index :: nat where
  "new_alert_index = 3"
definition alert_notification_control_point_index :: nat where
  "alert_notification_control_point_index = 4"

lemmas index_defs =
  supported_new_alert_category_index_def supported_unread_alert_category_index_def
  unread_alert_status_index_def new_alert_index_def alert_notification_control_point_index_def

text \<open>
  The shape the constructor establishes and every operation keeps: the array has its
  declared number of elements, element \<^verbatim>\<open>i\<close> carries the category \<^verbatim>\<open>i\<close>, and the
  vector holds the five characteristics, which are distinct heap objects.
\<close>

definition wf_state :: "ans_state \<Rightarrow> bool" where
  "wf_state s \<longleftrightarrow>
     map as_category (alert_status s) = map word_of_nat [0..<ANS_ALERT_CATEGORY_COUNT] \<and>
     length (characteristics s) = 5 \<and>
     distinct (characteristics s)"

subsection \<open>Memory accesses\<close>

text \<open>\<^verbatim>\<open>*_characteristics[i]\<close>.\<close>

definition characteristic_at :: "nat \<Rightarrow> ans_state \<Rightarrow> fault + nat" where
  "characteristic_at i s =
     (if i < length (characteristics s) then Inr (characteristics s ! i)
      else Inl (OutOfBounds i))"

text \<open>
  Accesses to \<^verbatim>\<open>_alert_status[i]\<close> whose index comes from a caller or from the peer.
  The array has \<^verbatim>\<open>ANS_ALERT_CATEGORY_COUNT\<close> elements; any other index is outside it.
\<close>

definition alert_status_at :: "nat \<Rightarrow> ans_state \<Rightarrow> fault + alert_status_fields" where
  "alert_status_at i s =
     (if i < ANS_ALERT_CATEGORY_COUNT then Inr (alert_status s ! i)
      else Inl (OutOfBounds i))"

definition alert_status_write ::
  "nat \<Rightarrow> (alert_status_fields \<Rightarrow> alert_status_fields) \<Rightarrow> ans_state \<Rightarrow> fault + ans_state" where
  "alert_status_write i f s =
     (if i < ANS_ALERT_CATEGORY_COUNT
      then Inr (s\<lparr>alert_status := (alert_status s)[i := f (alert_status s ! i)]\<rparr>)
      else Inl (OutOfBounds i))"

text \<open>
  \<^verbatim>\<open>_alert_status[i].fields.count = 0\<close> where \<^verbatim>\<open>i\<close> is an enumerator below
  \<^verbatim>\<open>ANS_ALERT_CATEGORY_COUNT\<close> or a loop variable bounded by it.
\<close>

definition clear_count :: "nat \<Rightarrow> ans_state \<Rightarrow> ans_state" where
  "clear_count i s =
     s\<lparr>alert_status := (alert_status s)[i := (alert_status s ! i)\<lparr>as_count := 0\<rparr>]\<rparr>"

text \<open>\<^verbatim>\<open>CGattService::setCharacteristicValue\<close>; the returned error code is only printed.\<close>

definition setCharacteristicValue :: "nat \<Rightarrow> gatt_value \<Rightarrow> ans_state \<Rightarrow> ans_state" where
  "setCharacteristicValue characteristic v s =
     s\<lparr>gatt_server := gatt_server s @ [(characteristic, v)]\<rparr>"

section \<open>Operations\<close>

subsection \<open>clearAlertsOfCategory\<close>

definition clearAlertsOfCategory :: "nat \<Rightarrow> ans_state \<Rightarrow> ans_state" where
  "clearAlertsOfCategory category s =
     (if category = ANS_TYPE_SIMPLE_ALERT then clear_count ANS_TYPE_SIMPLE_ALERT s
      else if category = ANS_TYPE_EMAIL then clear_count ANS_TYPE_EMAIL s
      else if category = ANS_TYPE_NEWS then clear_count ANS_TYPE_NEWS s
      else if category = ANS_TYPE_NOTIFICATION_CALL then clear_count ANS_TYPE_NOTIFICATION_CALL s
      else if category = ANS_TYPE_MISSED_CALL then clear_count ANS_TYPE_MISSED_CALL s
      else if category = ANS_TYPE_SMS_MMS then clear_count ANS_TYPE_SMS_MMS s
      else if category = ANS_TYPE_VOICE_MAIL then clear_count ANS_TYPE_VOICE_MAIL s
      else if category = ANS_TYPE_SCHEDULE then clear_count ANS_TYPE_SCHEDULE s
      else if category = ANS_TYPE_HIGH_PRIORITIZED_ALERT
        then clear_count ANS_TYPE_HIGH_PRIORITIZED_ALERT s
      else if category = ANS_TYPE_INSTANT_MESSAGE then clear_count ANS_TYPE_INSTANT_MESSAGE s
      else if category = ANS_TYPE_ALL_ALERTS
        then fold clear_count [0..<ANS_ALERT_CATEGORY_COUNT] s
      else s)"

subsection \<open>onConnected, onDisconnected\<close>

definition onConnected :: "ans_state \<Rightarrow> ans_state" where
  "onConnected s =
     (let s1 = clearAlertsOfCategory ANS_TYPE_ALL_ALERTS s;
          s2 = s1\<lparr>button_press_count := 0\<rparr>
      in s2\<lparr>connected := True\<rparr>)"

definition onDisconnected :: "ans_state \<Rightarrow> ans_state" where
  "onDisconnected s =
     (let s1 = s\<lparr>connected := False\<rparr>
      in clearAlertsOfCategory ANS_TYPE_ALL_ALERTS s1)"

subsection \<open>Configuration of the supported categories\<close>

text \<open>
  The loop shared by the two \<^verbatim>\<open>setSupported...\<close> functions: for \<^verbatim>\<open>ii = 0 .. 9\<close>,
  clear category \<^verbatim>\<open>ii\<close> when \<^verbatim>\<open>(supported & (1 << ii)) != 0\<close>.
\<close>

definition clear_supported :: "u16 \<Rightarrow> ans_state \<Rightarrow> ans_state" where
  "clear_supported supported s =
     fold (\<lambda>ii t. if supported AND push_bit ii 1 \<noteq> 0 then clearAlertsOfCategory ii t else t)
       [0..<ANS_ALERT_CATEGORY_COUNT] s"

definition setSupportedUnreadAlertsCategory ::
  "u16 \<Rightarrow> ans_state \<Rightarrow> fault + (bool \<times> ans_state)" where
  "setSupportedUnreadAlertsCategory supportedUnreadAlerts s =
     (if connected s then Inr (False, s)
      else
        let s1 = s\<lparr>supported_unread_alert_category := supportedUnreadAlerts\<rparr>;
            s2 = clear_supported supportedUnreadAlerts s1
        in bind_res (characteristic_at supported_unread_alert_category_index s2) (\<lambda>ch.
           Inr (True, setCharacteristicValue ch (U16 (supported_unread_alert_category s2)) s2)))"

definition addSupportedUnreadAlertsCategory ::
  "nat \<Rightarrow> ans_state \<Rightarrow> fault + (bool \<times> ans_state)" where
  "addSupportedUnreadAlertsCategory category s =
     (if connected s then Inr (False, s)
      else
        bind_res (getCategoryMaskFromId category) (\<lambda>category_mask.
        let s1 = s\<lparr>supported_unread_alert_category :=
                     supported_unread_alert_category s OR category_mask\<rparr>;
            s2 = clearAlertsOfCategory category s1
        in bind_res (characteristic_at supported_unread_alert_category_index s2) (\<lambda>ch.
           Inr (True, setCharacteristicValue ch (U16 (supported_unread_alert_category s2)) s2))))"

definition removeSupportedUnreadAlertsCategory ::
  "nat \<Rightarrow> ans_state \<Rightarrow> fault + (bool \<times> ans_state)" where
  "removeSupportedUnreadAlertsCategory category s =
     (if connected s then Inr (False, s)
      else
        bind_res (getCategoryMaskFromId category) (\<lambda>category_mask.
        let s1 = s\<lparr>supported_unread_alert_category :=
                     supported_unread_alert_category s AND NOT category_mask\<rparr>
        in bind_res (characteristic_at supported_unread_alert_category_index s1) (\<lambda>ch.
           let s2 = setCharacteristicValue ch (U16 (supported_unread_alert_category s1)) s1
           in Inr (True, clearAlertsOfCategory category s2))))"

definition setSupportedNewAlertsCategory ::
  "u16 \<Rightarrow> ans_state \<Rightarrow> fault + (bool \<times> ans_state)" where
  "setSupportedNewAlertsCategory supportedNewAlerts s =
     (if connected s then Inr (False, s)
      else
        let s1 = s\<lparr>supported_new_alert_category := supportedNewAlerts\<rparr>;
            s2 = clear_supported supportedNewAlerts s1
        in bind_res (characteristic_at supported_new_alert_category_index s2) (\<lambda>ch.
           Inr (True, setCharacteristicValue ch (U16 (supported_new_alert_category s2)) s2)))"

definition addSupportedNewAlertsCategory ::
  "nat \<Rightarrow> ans_state \<Rightarrow> fault + (bool \<times> ans_state)" where
  "addSupportedNewAlertsCategory category s =
     (if connected s then Inr (False, s)
      else
        bind_res (getCategoryMaskFromId category) (\<lambda>category_mask.
        let s1 = s\<lparr>supported_new_alert_category :=
                     supported_new_alert_category s OR category_mask\<rparr>
        in bind_res (characteristic_at supported_new_alert_category_index s1) (\<lambda>ch.
           let s2 = setCharacteristicValue ch (U16 (supported_new_alert_category s1)) s1
           in Inr (True, clearAlertsOfCategory category s2))))"

definition removeSupportedNewAlertsCategory ::
  "nat \<Rightarrow> ans_state \<Rightarrow> fault + (bool \<times> ans_state)" where
  "removeSupportedNewAlertsCategory category s =
     (if connected s then Inr (False, s)
      else
        bind_res (getCategoryMaskFromId category) (\<lambda>category_mask.
        let s1 = s\<lparr>supported_new_alert_category :=
                     supported_new_alert_category s AND NOT category_mask\<rparr>
        in bind_res (characteristic_at supported_new_alert_category_index s1) (\<lambda>ch.
           let s2 = setCharacteristicValue ch (U16 (supported_new_alert_category s1)) s1
           in Inr (True, clearAlertsOfCategory category s2))))"

subsection \<open>addNewAlertToCategory and the button\<close>

definition addNewAlertToCategory :: "nat \<Rightarrow> ans_state \<Rightarrow> fault + (bool \<times> ans_state)" where
  "addNewAlertToCategory category s =
     bind_res (getCategoryMaskFromId category) (\<lambda>category_mask.
     if category_mask AND supported_new_alert_category s = 0 then Inr (False, s)
     else
       bind_res (alert_status_write category (\<lambda>a. a\<lparr>as_count := as_count a + 1\<rparr>) s) (\<lambda>s1.
       let enabled = category_mask AND enabled_new_alert_category s1 in
       if enabled = 0 then Inr (False, s1)
       else
         bind_res (characteristic_at new_alert_index s1) (\<lambda>ch_new.
         bind_res (alert_status_at category s1) (\<lambda>a.
         let s2 = setCharacteristicValue ch_new (U8 (as_count a)) s1;
             enabled_unread = category_mask AND enabled_unread_alert_category s2
         in
         if enabled_unread = 0 then Inr (False, s2)
         else
           bind_res (characteristic_at unread_alert_status_index s2) (\<lambda>ch_unread.
           bind_res (alert_status_at category s2) (\<lambda>b.
           Inr (True, setCharacteristicValue ch_unread (U8 (as_count b)) s2)))))))"

definition buttonPressedHandler :: "ans_state \<Rightarrow> fault + ans_state" where
  "buttonPressedHandler s =
     (let s1 = s\<lparr>button_press_count := button_press_count s + 1\<rparr>
      in bind_res (addNewAlertToCategory ANS_TYPE_SIMPLE_ALERT s1) (\<lambda>(r, s2). Inr s2))"

subsection \<open>onDataWrittenHandler\<close>

text \<open>
  The search for the written characteristic in \<^verbatim>\<open>_characteristics\<close>: the position of
  the first equal pointer, or -1.
\<close>

fun find_characteristic :: "nat list \<Rightarrow> nat \<Rightarrow> nat \<Rightarrow> int" where
  "find_characteristic [] characteristic index = - 1"
| "find_characteristic (c # cs) characteristic index =
     (if c = characteristic then int index
      else find_characteristic cs characteristic (index + 1))"

fun fold_res :: "('a \<Rightarrow> 'b \<Rightarrow> fault + 'b) \<Rightarrow> 'a list \<Rightarrow> 'b \<Rightarrow> fault + 'b" where
  "fold_res f [] s = Inr s"
| "fold_res f (x # xs) s = bind_res (f x s) (fold_res f xs)"

text \<open>
  The branch of command 4 taken when the category byte is \<^verbatim>\<open>0xff\<close>: the loop runs
  for \<^verbatim>\<open>i = 0 .. ANS_ALERT_CATEGORY_COUNT\<close>, bounds included, and writes
  \<^verbatim>\<open>_button_press_count\<close>, a \<^verbatim>\<open>uint32_t\<close>, for each enabled bit.
\<close>

definition notify_all_new_alerts :: "ans_state \<Rightarrow> fault + ans_state" where
  "notify_all_new_alerts s =
     fold_res (\<lambda>i t.
        let msk = (push_bit i 1 :: u16) in
        if enabled_new_alert_category t AND msk \<noteq> 0
        then bind_res (characteristic_at new_alert_index t) (\<lambda>ch.
             Inr (setCharacteristicValue ch (U32 (button_press_count t)) t))
        else Inr t)
       [0..<ANS_ALERT_CATEGORY_COUNT + 1] s"

text \<open>The \<^verbatim>\<open>switch (command)\<close>.\<close>

definition control_point_command :: "u8 \<Rightarrow> u8 \<Rightarrow> u16 \<Rightarrow> ans_state \<Rightarrow> fault + ans_state" where
  "control_point_command command category categoryMask s =
     (if command = ANS_ENABLE_NEW_INCOMING_ALERT_NOTIFICATION then
        (if supported_new_alert_category s AND categoryMask \<noteq> 0
         then Inr (s\<lparr>enabled_new_alert_category :=
                       enabled_new_alert_category s OR categoryMask\<rparr>)
         else Inr s)
      else if command = ANS_ENABLE_UNREAD_CATEGORY_STATUS_NOTIFICATION then
        (if supported_unread_alert_category s AND categoryMask \<noteq> 0
         then Inr (s\<lparr>enabled_unread_alert_category :=
                       enabled_unread_alert_category s OR categoryMask\<rparr>)
         else Inr s)
      else if command = ANS_DISABLE_NEW_INCOMING_ALERT_NOTIFICATION then
        (if supported_new_alert_category s AND categoryMask \<noteq> 0
         then Inr (s\<lparr>enabled_new_alert_category :=
                       enabled_new_alert_category s AND NOT categoryMask\<rparr>)
         else Inr s)
      else if command = ANS_DISABLE_UNREAD_CATEGORY_STATUS_NOTIFICATION then
        (if supported_unread_alert_category s AND categoryMask \<noteq> 0
         then Inr (s\<lparr>enabled_unread_alert_category :=
                       enabled_unread_alert_category s AND NOT categoryMask\<rparr>)
         else Inr s)
      else if command = ANS_NOTIFY_NEW_INCOMING_ALERT_IMMEDIATELY then
        (if category = 0xff then notify_all_new_alerts s
         else if enabled_new_alert_category s AND categoryMask \<noteq> 0 then
           bind_res (characteristic_at new_alert_index s) (\<lambda>ch.
           bind_res (alert_status_at (unat category) s) (\<lambda>a.
           Inr (setCharacteristicValue ch (U8 (as_count a)) s)))
         else Inr s)
      else if command = ANS_NOTIFY_UNREAD_CATEGORY_STATUS_IMMEDIATELY then
        (if enabled_unread_alert_category s AND categoryMask \<noteq> 0 then
           bind_res (characteristic_at unread_alert_status_index s) (\<lambda>ch.
           bind_res (alert_status_at (unat category) s) (\<lambda>a.
           Inr (setCharacteristicValue ch (U8 (as_count a)) s)))
         else Inr s)
      else Inr s)"

text \<open>
  The body guarded by \<^verbatim>\<open>characteristic_index == _alert_notification_control_point_index\<close>.
  \<^verbatim>\<open>data\<close> is the written buffer and \<^verbatim>\<open>size\<close> its length, as the server passes them.
\<close>

definition control_point_written :: "u8 list \<Rightarrow> ans_state \<Rightarrow> fault + ans_state" where
  "control_point_written data s =
     (let sz = length data in
      if sz < 1 \<or> sz > 2 then Inr s
      else if sz = 1 then Inr (fold clear_count [0..<ANS_ALERT_CATEGORY_COUNT] s)
      else if sz = 2 then
        (let category = data ! 1;
             command = data ! 0
         in
         bind_res (alert_status_write (unat category) (\<lambda>a. a\<lparr>as_category := category\<rparr>) s)
           (\<lambda>s1.
         let s2 = s1\<lparr>control_point := (control_point s1)\<lparr>cp_command := command\<rparr>\<rparr>;
             s3 = s2\<lparr>control_point := (control_point s2)\<lparr>cp_category := category\<rparr>\<rparr>
         in
         bind_res (getCategoryMaskFromId (unat (cp_category (control_point s3))))
           (\<lambda>categoryMask.
         control_point_command command category categoryMask s3)))
      else Inr s)"

text \<open>
  The loop \<^verbatim>\<open>for (i = 0; i < _characteristics.size(); ++i)\<close>: its body does not depend
  on \<^verbatim>\<open>i\<close>, and leaves the loop once the guard holds.
\<close>

fun characteristics_loop :: "nat \<Rightarrow> int \<Rightarrow> u8 list \<Rightarrow> ans_state \<Rightarrow> fault + ans_state" where
  "characteristics_loop 0 characteristic_index data s = Inr s"
| "characteristics_loop (Suc n) characteristic_index data s =
     (if characteristic_index = int alert_notification_control_point_index
      then control_point_written data s
      else characteristics_loop n characteristic_index data s)"

definition onDataWrittenHandler :: "nat \<Rightarrow> u8 list \<Rightarrow> ans_state \<Rightarrow> fault + ans_state" where
  "onDataWrittenHandler characteristic data s =
     (let characteristic_index = find_characteristic (characteristics s) characteristic 0 in
      if characteristic_index = - 1 then Inr s
      else characteristics_loop (length (characteristics s)) characteristic_index data s)"

subsection \<open>Constructor\<close>

text \<open>
  The constructor zeroes the masks, latches the initial control point, numbers the alert
  statuses, adds five characteristics and marks the simple alert as supported on both
  axes. The argument is the addresses of the five characteristics that
  \<^verbatim>\<open>addCharacteristic\<close> allocates.
\<close>

definition CAlertNotificationService :: "nat list \<Rightarrow> fault + ans_state" where
  "CAlertNotificationService chars =
     (let s0 = \<lparr> connected = False,
                 button_press_count = 0,
                 characteristics = chars,
                 supported_new_alert_category = 0,
                 supported_unread_alert_category = 0,
                 enabled_new_alert_category = 0,
                 enabled_unread_alert_category = 0,
                 alert_status =
                   map (\<lambda>i. \<lparr> as_category = word_of_nat i, as_count = 0 \<rparr>)
                     [0..<ANS_ALERT_CATEGORY_COUNT],
                 control_point =
                   \<lparr> cp_command = ANS_DISABLE_NEW_INCOMING_ALERT_NOTIFICATION,
                     cp_category = word_of_nat ANS_TYPE_ALL_ALERTS \<rparr>,
                 gatt_server = [] \<rparr>
      in
      bind_res (setSupportedNewAlertsCategory ANS_TYPE_MASK_SIMPLE_ALERT s0) (\<lambda>(r1, s1).
      bind_res (setSupportedUnreadAlertsCategory ANS_TYPE_MASK_SIMPLE_ALERT s1) (\<lambda>(r2, s2).
      Inr s2)))"

section \<open>Example states\<close>

text \<open>
  Concrete states for evaluating the operations: the state the constructor returns for five
  characteristics at the addresses 100 to 104, and a connected state in which the categories
  0 and 2 are supported and enabled for new alerts and hold 3 and 5 alerts.
\<close>

definition example_characteristics :: "nat list" where
  "example_characteristics = [100, 101, 102, 103, 104]"

definition alert_statuses :: "u8 list \<Rightarrow> alert_status_fields list" where
  "alert_statuses counts =
     map (\<lambda>(i, n). \<lparr> as_category = word_of_nat i, as_count = n \<rparr>) (enumerate 0 counts)"

definition constructed_state :: ans_state where
  "constructed_state =
     \<lparr> connected = False,
       button_press_count = 0,
       characteristics = example_characteristics,
       supported_new_alert_category = 1,
       supported_unread_alert_category = 1,
       enabled_new_alert_category = 0,
       enabled_unread_alert_category = 0,
       alert_status = alert_statuses [0, 0, 0, 0, 0, 0, 0, 0, 0, 0],
       control_point = \<lparr> cp_command = 2, cp_category = 255 \<rparr>,
       gatt_server = [(100, U16 1), (101, U16 1)] \<rparr>"

definition scenario_state :: ans_state where
  "scenario_state =
     \<lparr> connected = True,
       button_press_count = 7,
       characteristics = example_characteristics,
       supported_new_alert_category = 5,
       supported_unread_alert_category = 1,
       enabled_new_alert_category = 5,
       enabled_unread_alert_category = 0,
       alert_status = alert_statuses [3, 0, 5, 0, 0, 0, 0, 0, 0, 0],
       control_point = \<lparr> cp_command = 0, cp_category = 2 \<rparr>,
       gatt_server = [(100, U16 1), (101, U16 1), (100, U16 5)] \<rparr>"

text \<open>
  Three states of a session with the constructed service: after the peer enabled new alerts
  for category 0; after it enabled the unread status for category 0 instead; and after
  category 0, enabled for new alerts in an earlier connection, was removed from the
  supported new alerts.
\<close>

definition scenario_D_state :: ans_state where
  "scenario_D_state =
     \<lparr> connected = True,
       button_press_count = 0,
       characteristics = example_characteristics,
       supported_new_alert_category = 1,
       supported_unread_alert_category = 1,
       enabled_new_alert_category = 1,
       enabled_unread_alert_category = 0,
       alert_status = alert_statuses [0, 0, 0, 0, 0, 0, 0, 0, 0, 0],
       control_point = \<lparr> cp_command = 0, cp_category = 0 \<rparr>,
       gatt_server = [(100, U16 1), (101, U16 1)] \<rparr>"

definition unread_only_state :: ans_state where
  "unread_only_state =
     \<lparr> connected = True,
       button_press_count = 0,
       characteristics = example_characteristics,
       supported_new_alert_category = 1,
       supported_unread_alert_category = 1,
       enabled_new_alert_category = 0,
       enabled_unread_alert_category = 1,
       alert_status = alert_statuses [0, 0, 0, 0, 0, 0, 0, 0, 0, 0],
       control_point = \<lparr> cp_command = 1, cp_category = 0 \<rparr>,
       gatt_server = [(100, U16 1), (101, U16 1)] \<rparr>"

definition desupported_state :: ans_state where
  "desupported_state =
     \<lparr> connected = True,
       button_press_count = 0,
       characteristics = example_characteristics,
       supported_new_alert_category = 0,
       supported_unread_alert_category = 1,
       enabled_new_alert_category = 1,
       enabled_unread_alert_category = 0,
       alert_status = alert_statuses [0, 0, 0, 0, 0, 0, 0, 0, 0, 0],
       control_point = \<lparr> cp_command = 2, cp_category = 1 \<rparr>,
       gatt_server = [(100, U16 1), (101, U16 1), (100, U16 0)] \<rparr>"

section \<open>Basic facts\<close>

lemma bind_res_Inr [simp]: "bind_res (Inr x) f = f x"
  by (simp add: bind_res_def)

lemma bind_res_Inl [simp]: "bind_res (Inl e) f = Inl e"
  by (simp add: bind_res_def)

lemma and_push_bit_1_neq_0_iff:
  fixes w :: "'a::len word"
  shows "w AND push_bit n 1 \<noteq> 0 \<longleftrightarrow> bit w n"
proof
  assume "w AND push_bit n 1 \<noteq> 0"
  then obtain k where "bit (w AND push_bit n 1) k"
    by (metis bit_word_eqI bit_0_eq bot_apply bot_bool_def)
  then show "bit w n"
    by (auto simp: bit_and_iff bit_push_bit_iff bit_1_iff bit_exp_iff)
next
  assume "bit w n"
  then have "bit (w AND push_bit n 1) n"
    using bit_imp_le_length [of w n]
    by (simp add: bit_and_iff bit_push_bit_iff bit_exp_iff possible_bit_word)
  then show "w AND push_bit n 1 \<noteq> 0"
    by auto
qed

lemma clear_all_list:
  "n \<le> length xs \<Longrightarrow>
   fold (\<lambda>i ys. ys[i := (ys ! i)\<lparr>as_count := 0\<rparr>]) [0..<n] xs =
     map (\<lambda>a. a\<lparr>as_count := 0\<rparr>) (take n xs) @ drop n xs"
proof (induction n)
  case 0
  then show ?case by simp
next
  case (Suc n)
  then have n: "n < length xs" by simp
  have "(map (\<lambda>a. a\<lparr>as_count := 0\<rparr>) (take n xs) @ drop n xs)[n := ((map (\<lambda>a. a\<lparr>as_count := 0\<rparr>) (take n xs) @ drop n xs) ! n)\<lparr>as_count := 0\<rparr>]
      = map (\<lambda>a. a\<lparr>as_count := 0\<rparr>) (take (Suc n) xs) @ drop (Suc n) xs"
    using n by (simp add: list_update_append nth_append take_Suc_conv_app_nth
        Cons_nth_drop_Suc [symmetric] del: upt_Suc)
  with Suc show ?case by simp
qed

lemma fold_clear_count_list:
  "fold clear_count ns s =
     s\<lparr>alert_status := fold (\<lambda>i ys. ys[i := (ys ! i)\<lparr>as_count := 0\<rparr>]) ns (alert_status s)\<rparr>"
  by (induction ns arbitrary: s) (simp_all add: clear_count_def)

lemma fold_clear_count_all:
  "length (alert_status s) = ANS_ALERT_CATEGORY_COUNT \<Longrightarrow>
   fold clear_count [0..<ANS_ALERT_CATEGORY_COUNT] s =
     s\<lparr>alert_status := map (\<lambda>a. a\<lparr>as_count := 0\<rparr>) (alert_status s)\<rparr>"
  using clear_all_list [of "ANS_ALERT_CATEGORY_COUNT" "alert_status s"]
  by (simp add: fold_clear_count_list)

lemma clearAlertsOfCategory_all:
  "clearAlertsOfCategory ANS_TYPE_ALL_ALERTS s = fold clear_count [0..<ANS_ALERT_CATEGORY_COUNT] s"
  by (simp add: clearAlertsOfCategory_def CategoryId_defs)

lemma clearAlertsOfCategory_concrete:
  assumes "category < ANS_ALERT_CATEGORY_COUNT"
  shows "clearAlertsOfCategory category s = clear_count category s"
proof -
  from assms have "category = 0 \<or> category = 1 \<or> category = 2 \<or> category = 3 \<or> category = 4 \<or>
      category = 5 \<or> category = 6 \<or> category = 7 \<or> category = 8 \<or> category = 9"
    unfolding ANS_ALERT_CATEGORY_COUNT_def by arith
  then show ?thesis
    by (elim disjE) (simp_all add: clearAlertsOfCategory_def CategoryId_defs)
qed

lemma find_characteristic_nth:
  "distinct cs \<Longrightarrow> i < length cs \<Longrightarrow> find_characteristic cs (cs ! i) k = int (k + i)"
proof (induction cs arbitrary: i k)
  case Nil
  then show ?case by simp
next
  case (Cons c cs)
  show ?case
  proof (cases i)
    case 0
    then show ?thesis by simp
  next
    case (Suc j)
    with Cons.prems have "c \<noteq> cs ! j" "j < length cs" "distinct cs" by auto
    with Cons.IH [of j "k + 1"] Suc show ?thesis by simp
  qed
qed

lemma characteristics_loop_control_point:
  "0 < n \<Longrightarrow>
   characteristics_loop n (int alert_notification_control_point_index) data s =
     control_point_written data s"
  by (cases n) simp_all

lemma characteristics_loop_skip:
  "control_point_written data s = Inr s \<Longrightarrow> characteristics_loop n idx data s = Inr s"
  by (induction n) simp_all

lemma wf_state_length:
  assumes "wf_state s"
  shows "length (alert_status s) = ANS_ALERT_CATEGORY_COUNT"
proof -
  from assms have "length (map as_category (alert_status s)) =
      length (map word_of_nat [0..<ANS_ALERT_CATEGORY_COUNT] :: u8 list)"
    by (simp only: wf_state_def)
  then show ?thesis by simp
qed

lemma wf_state_category:
  assumes "wf_state s" and "i < ANS_ALERT_CATEGORY_COUNT"
  shows "as_category (alert_status s ! i) = word_of_nat i"
proof -
  from assms(1) have "map as_category (alert_status s) ! i =
      (map word_of_nat [0..<ANS_ALERT_CATEGORY_COUNT] :: u8 list) ! i"
    by (simp only: wf_state_def)
  with assms(2) wf_state_length [OF assms(1)] show ?thesis by simp
qed

lemma onDataWrittenHandler_control_point:
  assumes "wf_state s"
  shows "onDataWrittenHandler (characteristics s ! alert_notification_control_point_index) data s =
     control_point_written data s"
proof -
  from assms have d: "distinct (characteristics s)" and l: "length (characteristics s) = 5"
    by (simp_all add: wf_state_def)
  have "find_characteristic (characteristics s)
          (characteristics s ! alert_notification_control_point_index) 0 =
        int alert_notification_control_point_index"
    using find_characteristic_nth [OF d, of alert_notification_control_point_index 0] l
    by (simp add: alert_notification_control_point_index_def)
  then show ?thesis
    using l by (simp add: onDataWrittenHandler_def characteristics_loop_control_point)
qed

lemma control_point_written_bad_size:
  "length data \<noteq> 1 \<Longrightarrow> length data \<noteq> 2 \<Longrightarrow> control_point_written data s = Inr s"
  by (simp add: control_point_written_def Let_def)

lemma getCategoryMaskFromId_concrete:
  "category < ANS_ALERT_CATEGORY_COUNT \<Longrightarrow>
     getCategoryMaskFromId category = Inr (push_bit category 1)"
  by (simp add: getCategoryMaskFromId_def ANS_ALERT_CATEGORY_COUNT_def ANS_TYPE_ALL_ALERTS_def
      of_nat_push_bit)

lemma getCategoryIdFromMask_single_bit:
  assumes "c < ANS_ALERT_CATEGORY_COUNT"
  shows "getCategoryIdFromMask (push_bit c 1) = c"
proof -
  from assms have "c = 0 \<or> c = 1 \<or> c = 2 \<or> c = 3 \<or> c = 4 \<or>
      c = 5 \<or> c = 6 \<or> c = 7 \<or> c = 8 \<or> c = 9"
    unfolding ANS_ALERT_CATEGORY_COUNT_def by arith
  then show ?thesis
    by (elim disjE) (simp_all add: getCategoryIdFromMask_def ANS_ALERT_CATEGORY_COUNT_def upt_rec)
qed

lemma all_alerts_not_single_bit: "(0x03FF :: u16) \<noteq> push_bit i 1"
proof
  assume eq: "(0x03FF :: u16) = push_bit i 1"
  have "bit (0x03FF :: u16) 0" and "bit (0x03FF :: u16) 1"
    by simp_all
  with eq have "bit (push_bit i 1 :: u16) 0" and "bit (push_bit i 1 :: u16) 1"
    by simp_all
  then have "i = 0" and "i = 1"
    by (simp_all add: bit_push_bit_iff bit_1_iff bit_exp_iff)
  then show False by simp
qed

lemma constructor_result:
  "CAlertNotificationService example_characteristics = Inr constructed_state"
  by (simp add: CAlertNotificationService_def constructed_state_def example_characteristics_def
      setSupportedNewAlertsCategory_def setSupportedUnreadAlertsCategory_def clear_supported_def
      ANS_ALERT_CATEGORY_COUNT_def upt_rec clearAlertsOfCategory_def CategoryId_defs
      clear_count_def characteristic_at_def index_defs setCharacteristicValue_def
      ANS_TYPE_MASK_SIMPLE_ALERT_def CommandId_defs alert_statuses_def)

lemma wf_scenario_state: "wf_state scenario_state"
  by (simp add: wf_state_def scenario_state_def alert_statuses_def example_characteristics_def
      ANS_ALERT_CATEGORY_COUNT_def upt_rec)

lemma and_exp_eq_0_iff:
  fixes w :: "'a::len word"
  shows "w AND 2 ^ n = 0 \<longleftrightarrow> \<not> bit w n"
  using and_push_bit_1_neq_0_iff [of w n] by auto

lemma control_point_latched:
  "r\<lparr>cp_command := command, cp_category := category\<rparr> =
     \<lparr>cp_command = command, cp_category = category\<rparr>"
  by (cases r) simp

lemma latch_category_same:
  assumes "wf_state s" and "unat c < ANS_ALERT_CATEGORY_COUNT"
  shows "(alert_status s)[unat c := (alert_status s ! unat c)\<lparr>as_category := c\<rparr>] = alert_status s"
proof -
  have "as_category (alert_status s ! unat c) = c"
    using wf_state_category [OF assms] by simp
  then have "(alert_status s ! unat c)\<lparr>as_category := c\<rparr> = alert_status s ! unat c"
    by simp
  then show ?thesis by simp
qed

lemma control_point_written_command:
  assumes "wf_state s" and "unat category < ANS_ALERT_CATEGORY_COUNT"
  shows "control_point_written [command, category] s =
     control_point_command command category (push_bit (unat category) 1)
       (s\<lparr>control_point := \<lparr>cp_command = command, cp_category = category\<rparr>\<rparr>)"
  using assms(2) latch_category_same [OF assms]
  by (simp add: control_point_written_def alert_status_write_def getCategoryMaskFromId_concrete
      Let_def control_point_latched)

lemma onDataWrittenHandler_command:
  assumes "wf_state s" and "unat category < ANS_ALERT_CATEGORY_COUNT"
  shows "onDataWrittenHandler (characteristics s ! alert_notification_control_point_index)
       [command, category] s =
     control_point_command command category (push_bit (unat category) 1)
       (s\<lparr>control_point := \<lparr>cp_command = command, cp_category = category\<rparr>\<rparr>)"
  using assms
  by (simp only: onDataWrittenHandler_control_point control_point_written_command)

lemmas eval_defs =
  onDataWrittenHandler_def control_point_written_def control_point_command_def
  notify_all_new_alerts_def addNewAlertToCategory_def buttonPressedHandler_def
  onConnected_def onDisconnected_def clearAlertsOfCategory_def clear_count_def
  clear_supported_def setSupportedNewAlertsCategory_def setSupportedUnreadAlertsCategory_def
  addSupportedNewAlertsCategory_def addSupportedUnreadAlertsCategory_def
  removeSupportedNewAlertsCategory_def removeSupportedUnreadAlertsCategory_def
  getCategoryMaskFromId_def alert_status_at_def alert_status_write_def characteristic_at_def
  setCharacteristicValue_def CategoryId_defs CommandId_defs index_defs
  ANS_ALERT_CATEGORY_COUNT_def ANS_TYPE_MASK_ALL_ALERTS_def ANS_TYPE_MASK_SIMPLE_ALERT_def
  example_characteristics_def alert_statuses_def Let_def upt_rec

lemma scenario_D_state_reached:
  "onDataWrittenHandler 104 [0, 0] (onConnected constructed_state) = Inr scenario_D_state"
  by (simp add: constructed_state_def scenario_D_state_def eval_defs)

lemma unread_only_state_reached:
  "onDataWrittenHandler 104 [1, 0] (onConnected constructed_state) = Inr unread_only_state"
  by (simp add: constructed_state_def unread_only_state_def eval_defs)

lemma desupported_state_reached:
  "bind_res (onDataWrittenHandler 104 [2, 1] scenario_D_state) (\<lambda>s1.
   bind_res (removeSupportedNewAlertsCategory 0 (onDisconnected s1)) (\<lambda>(r, s2).
   Inr (r, onConnected s2))) = Inr (True, desupported_state)"
  by (simp add: scenario_D_state_def desupported_state_def eval_defs)

lemma scenario_state_reached:
  "bind_res (setSupportedNewAlertsCategory 5 constructed_state) (\<lambda>(r, s1).
   bind_res (fold_res (\<lambda>n. buttonPressedHandler) [1, 2, 3, 4 :: nat] (onConnected s1)) (\<lambda>s2.
   bind_res (onDataWrittenHandler 104 [0] s2) (\<lambda>s3.
   bind_res (fold_res (\<lambda>n. buttonPressedHandler) [5, 6, 7 :: nat] s3) (\<lambda>s4.
   bind_res (fold_res (\<lambda>n t. bind_res (addNewAlertToCategory ANS_TYPE_NEWS t) (\<lambda>(r, u). Inr u))
               [1, 2, 3, 4, 5 :: nat] s4) (\<lambda>s5.
   bind_res (onDataWrittenHandler 104 [0, 0] s5) (\<lambda>s6.
   onDataWrittenHandler 104 [0, 2] s6)))))) = Inr scenario_state"
  by (simp add: constructed_state_def scenario_state_def eval_defs)

lemma wf_scenario_D_state: "wf_state scenario_D_state"
  by (simp add: wf_state_def scenario_D_state_def alert_statuses_def
      example_characteristics_def ANS_ALERT_CATEGORY_COUNT_def upt_rec)

lemma wf_unread_only_state: "wf_state unread_only_state"
  by (simp add: wf_state_def unread_only_state_def alert_statuses_def
      example_characteristics_def ANS_ALERT_CATEGORY_COUNT_def upt_rec)

section \<open>Conversion utilities\<close>

text \<open>
  Claim C10. For every concrete category \<open>c\<close> below \<open>ANS_ALERT_CATEGORY_COUNT\<close>, converting
  \<open>c\<close> to its mask, the mask back to a category and that category to a mask again gives the
  single-bit mask \<open>1 << c\<close>; the mask of \<open>ANS_TYPE_ALL_ALERTS\<close> is the constant \<open>0x03FF\<close>,
  which is not the single-bit mask of any position \<open>i\<close>.
\<close>

theorem mask_category_round_trip:
  assumes "c < ANS_ALERT_CATEGORY_COUNT"
  shows "bind_res (getCategoryMaskFromId c)
           (\<lambda>m. getCategoryMaskFromId (getCategoryIdFromMask m)) = Inr (push_bit c 1)
       \<and> getCategoryMaskFromId ANS_TYPE_ALL_ALERTS = Inr 0x03FF
       \<and> getCategoryMaskFromId ANS_TYPE_ALL_ALERTS \<noteq> Inr (push_bit i 1)"
proof -
  have m: "getCategoryMaskFromId c = Inr (push_bit c 1)"
    using assms by (rule getCategoryMaskFromId_concrete)
  have c: "getCategoryIdFromMask (push_bit c 1) = c"
    using assms by (rule getCategoryIdFromMask_single_bit)
  have a: "getCategoryMaskFromId ANS_TYPE_ALL_ALERTS = Inr 0x03FF"
    by (simp add: getCategoryMaskFromId_def ANS_TYPE_MASK_ALL_ALERTS_def)
  show ?thesis
    unfolding a m bind_res_Inr c m
    using all_alerts_not_single_bit [of i] by simp
qed

theorem mask_category_round_trip_witness:
  "(3::nat) < ANS_ALERT_CATEGORY_COUNT
   \<and> bind_res (getCategoryMaskFromId 3)
           (\<lambda>m. getCategoryMaskFromId (getCategoryIdFromMask m)) = Inr 8
   \<and> getCategoryMaskFromId ANS_TYPE_ALL_ALERTS = Inr 0x03FF
   \<and> getCategoryMaskFromId ANS_TYPE_ALL_ALERTS \<noteq> Inr 4"
  using mask_category_round_trip [of 3 2]
  by (simp add: ANS_ALERT_CATEGORY_COUNT_def)

section \<open>Connection transitions\<close>

text \<open>
  Claim C6. From every state whose alert-status array has its declared size,
  \<open>onConnected\<close> sets \<open>connected\<close> and \<open>onDisconnected\<close> resets it, and both set the
  count of every alert status to 0. Beyond that \<open>onConnected\<close> zeroes the button-press
  count; nothing else, in particular none of the four masks, changes.
\<close>

theorem connection_transitions:
  assumes "length (alert_status s) = ANS_ALERT_CATEGORY_COUNT"
  shows "onConnected s =
           s\<lparr>alert_status := map (\<lambda>a. a\<lparr>as_count := 0\<rparr>) (alert_status s),
             button_press_count := 0, connected := True\<rparr>
       \<and> onDisconnected s =
           s\<lparr>alert_status := map (\<lambda>a. a\<lparr>as_count := 0\<rparr>) (alert_status s),
             connected := False\<rparr>"
  using assms
  by (simp add: onConnected_def onDisconnected_def clearAlertsOfCategory_all
      fold_clear_count_all)

theorem connection_transitions_witness:
  "length (alert_status scenario_state) = ANS_ALERT_CATEGORY_COUNT
   \<and> onConnected scenario_state =
       scenario_state\<lparr>alert_status := alert_statuses [0, 0, 0, 0, 0, 0, 0, 0, 0, 0],
         button_press_count := 0, connected := True\<rparr>
   \<and> onDisconnected scenario_state =
       scenario_state\<lparr>alert_status := alert_statuses [0, 0, 0, 0, 0, 0, 0, 0, 0, 0],
         connected := False\<rparr>"
  using connection_transitions [of scenario_state]
  by (simp add: scenario_state_def alert_statuses_def ANS_ALERT_CATEGORY_COUNT_def)

section \<open>Configuration while connected\<close>

text \<open>
  Claim C5. In every state with \<open>connected\<close> set, each of the six configuration functions
  (set, add and remove, for the new-alert and the unread-alert masks) returns false and
  leaves the whole state as it was: the four masks, every alert count, and the server, which
  receives no write.
\<close>

theorem configuration_rejected_while_connected:
  assumes "connected s"
  shows "setSupportedNewAlertsCategory m s = Inr (False, s)
       \<and> addSupportedNewAlertsCategory c s = Inr (False, s)
       \<and> removeSupportedNewAlertsCategory c s = Inr (False, s)
       \<and> setSupportedUnreadAlertsCategory m s = Inr (False, s)
       \<and> addSupportedUnreadAlertsCategory c s = Inr (False, s)
       \<and> removeSupportedUnreadAlertsCategory c s = Inr (False, s)"
  using assms
  by (simp add: setSupportedNewAlertsCategory_def addSupportedNewAlertsCategory_def
      removeSupportedNewAlertsCategory_def setSupportedUnreadAlertsCategory_def
      addSupportedUnreadAlertsCategory_def removeSupportedUnreadAlertsCategory_def)

theorem configuration_rejected_while_connected_witness:
  "connected scenario_state
   \<and> setSupportedNewAlertsCategory 0x03FF scenario_state = Inr (False, scenario_state)
   \<and> addSupportedNewAlertsCategory 1 scenario_state = Inr (False, scenario_state)
   \<and> removeSupportedNewAlertsCategory 1 scenario_state = Inr (False, scenario_state)
   \<and> setSupportedUnreadAlertsCategory 0x03FF scenario_state = Inr (False, scenario_state)
   \<and> addSupportedUnreadAlertsCategory 1 scenario_state = Inr (False, scenario_state)
   \<and> removeSupportedUnreadAlertsCategory 1 scenario_state = Inr (False, scenario_state)"
  using configuration_rejected_while_connected [of scenario_state "0x03FF" 1]
  by (simp add: scenario_state_def)

section \<open>Writes to the control point\<close>

text \<open>
  Claim C7. A written buffer whose length is neither 1 nor 2, the empty buffer included,
  leaves the whole state as it was, whichever characteristic it is written to: masks,
  counts and the latched control point are unchanged and the server receives no write.
\<close>

theorem malformed_write_ignored:
  assumes "length data \<noteq> 1" and "length data \<noteq> 2"
  shows "onDataWrittenHandler characteristic data s = Inr s"
  using assms
  by (simp add: onDataWrittenHandler_def Let_def characteristics_loop_skip
      control_point_written_bad_size)

theorem malformed_write_ignored_witness:
  "length ([] :: u8 list) \<noteq> 1 \<and> length ([] :: u8 list) \<noteq> 2
   \<and> onDataWrittenHandler 104 [] scenario_state = Inr scenario_state
   \<and> length [4, 0, 0 :: u8] \<noteq> 1 \<and> length [4, 0, 0 :: u8] \<noteq> 2
   \<and> onDataWrittenHandler 104 [4, 0, 0] scenario_state = Inr scenario_state"
  using malformed_write_ignored [of "[]" 104 scenario_state]
    malformed_write_ignored [of "[4, 0, 0]" 104 scenario_state]
  by simp

text \<open>
  Claim C8. From every well-formed state, a write of one byte \<open>b\<close> to the control point
  sets the count of every alert status to 0, whatever \<open>b\<close> and the earlier counts were.
  Nothing else changes: the four masks are as before and the server receives no write.
\<close>

theorem one_byte_write_clears_counters:
  assumes "wf_state s"
  shows "onDataWrittenHandler (characteristics s ! alert_notification_control_point_index) [b] s =
     Inr (s\<lparr>alert_status := map (\<lambda>a. a\<lparr>as_count := 0\<rparr>) (alert_status s)\<rparr>)"
  using assms
  by (simp add: onDataWrittenHandler_control_point control_point_written_def
      fold_clear_count_all wf_state_length)


theorem one_byte_write_clears_counters_witness:
  "wf_state scenario_state
   \<and> onDataWrittenHandler 104 [0] scenario_state =
       Inr (scenario_state\<lparr>alert_status := alert_statuses [0, 0, 0, 0, 0, 0, 0, 0, 0, 0]\<rparr>)"
  using one_byte_write_clears_counters [of scenario_state 0] wf_scenario_state
  by (simp add: scenario_state_def alert_statuses_def example_characteristics_def index_defs)

text \<open>
  Claim C9. From every well-formed state and for every concrete category \<open>c\<close>, the two
  disable commands (2 for new alerts, 3 for the unread status) written to the control point
  are gated on \<open>c\<close> being supported on their axis: when the bit of \<open>c\<close> is set in the
  supported mask, the bit of \<open>c\<close> is cleared in the enabled mask of that axis; when it is
  not, the enabled mask is as before. In both cases the only other change is the latched
  control point; the server receives no write.
\<close>

theorem disable_commands:
  assumes "wf_state s" and "unat c < ANS_ALERT_CATEGORY_COUNT"
  shows "onDataWrittenHandler (characteristics s ! alert_notification_control_point_index)
           [ANS_DISABLE_NEW_INCOMING_ALERT_NOTIFICATION, c] s =
         Inr (s\<lparr>control_point :=
                   \<lparr>cp_command = ANS_DISABLE_NEW_INCOMING_ALERT_NOTIFICATION, cp_category = c\<rparr>,
                 enabled_new_alert_category :=
                   (if bit (supported_new_alert_category s) (unat c)
                    then enabled_new_alert_category s AND NOT (push_bit (unat c) 1)
                    else enabled_new_alert_category s)\<rparr>)
       \<and> onDataWrittenHandler (characteristics s ! alert_notification_control_point_index)
           [ANS_DISABLE_UNREAD_CATEGORY_STATUS_NOTIFICATION, c] s =
         Inr (s\<lparr>control_point :=
                   \<lparr>cp_command = ANS_DISABLE_UNREAD_CATEGORY_STATUS_NOTIFICATION,
                    cp_category = c\<rparr>,
                 enabled_unread_alert_category :=
                   (if bit (supported_unread_alert_category s) (unat c)
                    then enabled_unread_alert_category s AND NOT (push_bit (unat c) 1)
                    else enabled_unread_alert_category s)\<rparr>)"
  using assms
  by (simp add: onDataWrittenHandler_command control_point_command_def CommandId_defs
      and_exp_eq_0_iff)

theorem disable_commands_witness:
  "wf_state scenario_D_state \<and> unat (1 :: u8) < ANS_ALERT_CATEGORY_COUNT
   \<and> onDataWrittenHandler 104 [2, 1] scenario_D_state =
       Inr (scenario_D_state\<lparr>control_point := \<lparr>cp_command = 2, cp_category = 1\<rparr>\<rparr>)
   \<and> onDataWrittenHandler 104 [3, 1] scenario_D_state =
       Inr (scenario_D_state\<lparr>control_point := \<lparr>cp_command = 3, cp_category = 1\<rparr>\<rparr>)
   \<and> unat (0 :: u8) < ANS_ALERT_CATEGORY_COUNT
   \<and> onDataWrittenHandler 104 [2, 0] scenario_D_state =
       Inr (scenario_D_state\<lparr>control_point := \<lparr>cp_command = 2, cp_category = 0\<rparr>,
              enabled_new_alert_category := 0\<rparr>)"
proof -
  have c: "unat (1 :: u8) < ANS_ALERT_CATEGORY_COUNT" "unat (0 :: u8) < ANS_ALERT_CATEGORY_COUNT"
    by (simp_all add: ANS_ALERT_CATEGORY_COUNT_def)
  show ?thesis
    using disable_commands [OF wf_scenario_D_state c(1)]
      disable_commands [OF wf_scenario_D_state c(2)] wf_scenario_D_state c
    by (simp add: scenario_D_state_def example_characteristics_def index_defs CommandId_defs)
qed

text \<open>
  Claim C4, as amended. From every well-formed state and for every concrete category \<open>c\<close>,
  the two enable commands (0 for new alerts, 1 for the unread status) written to the
  control point set the bit of \<open>c\<close> in the enabled mask of their axis when the bit of \<open>c\<close>
  is set in the supported mask of that axis, and leave the enabled mask as it was when it
  is not. So \<open>c\<close> is enabled afterwards exactly when it was supported or already enabled
  before. The only other change is the latched control point, which takes the written
  command and category in both cases; the handler returns no value.
\<close>

theorem enable_commands:
  assumes "wf_state s" and "unat c < ANS_ALERT_CATEGORY_COUNT"
  shows "\<exists>s1 s2.
         onDataWrittenHandler (characteristics s ! alert_notification_control_point_index)
           [ANS_ENABLE_NEW_INCOMING_ALERT_NOTIFICATION, c] s = Inr s1
       \<and> s1 = s\<lparr>control_point :=
                   \<lparr>cp_command = ANS_ENABLE_NEW_INCOMING_ALERT_NOTIFICATION, cp_category = c\<rparr>,
                 enabled_new_alert_category :=
                   (if bit (supported_new_alert_category s) (unat c)
                    then enabled_new_alert_category s OR push_bit (unat c) 1
                    else enabled_new_alert_category s)\<rparr>
       \<and> bit (enabled_new_alert_category s1) (unat c) =
           (bit (supported_new_alert_category s) (unat c) \<or>
            bit (enabled_new_alert_category s) (unat c))
       \<and> onDataWrittenHandler (characteristics s ! alert_notification_control_point_index)
           [ANS_ENABLE_UNREAD_CATEGORY_STATUS_NOTIFICATION, c] s = Inr s2
       \<and> s2 = s\<lparr>control_point :=
                   \<lparr>cp_command = ANS_ENABLE_UNREAD_CATEGORY_STATUS_NOTIFICATION,
                    cp_category = c\<rparr>,
                 enabled_unread_alert_category :=
                   (if bit (supported_unread_alert_category s) (unat c)
                    then enabled_unread_alert_category s OR push_bit (unat c) 1
                    else enabled_unread_alert_category s)\<rparr>
       \<and> bit (enabled_unread_alert_category s2) (unat c) =
           (bit (supported_unread_alert_category s) (unat c) \<or>
            bit (enabled_unread_alert_category s) (unat c))"
  using assms bit_imp_le_length [of "supported_new_alert_category s" "unat c"]
    bit_imp_le_length [of "supported_unread_alert_category s" "unat c"]
  by (simp add: onDataWrittenHandler_command control_point_command_def CommandId_defs
      and_exp_eq_0_iff bit_or_iff bit_exp_iff possible_bit_word)


theorem enable_commands_witness:
  "wf_state unread_only_state \<and> unat (0 :: u8) < ANS_ALERT_CATEGORY_COUNT
   \<and> onDataWrittenHandler 104 [0, 0] unread_only_state =
       Inr (unread_only_state\<lparr>control_point := \<lparr>cp_command = 0, cp_category = 0\<rparr>,
              enabled_new_alert_category := 1\<rparr>)
   \<and> onDataWrittenHandler 104 [1, 0] unread_only_state = Inr unread_only_state"
proof -
  have c: "unat (0 :: u8) < ANS_ALERT_CATEGORY_COUNT"
    by (simp add: ANS_ALERT_CATEGORY_COUNT_def)
  show ?thesis
    using enable_commands [OF wf_unread_only_state c] wf_unread_only_state c
    by (simp add: unread_only_state_def example_characteristics_def index_defs CommandId_defs)
qed

text \<open>
  Claim C4 as stated fails in \<open>desupported_state\<close>, which is reached by enabling
  category 0 and then removing it from the supported new alerts: category 0 is not
  supported, yet after the enable command it is enabled, and the state has changed, the
  control point having latched the command.
\<close>

theorem enable_unsupported_counterexample:
  "\<not> bit (supported_new_alert_category desupported_state) 0
   \<and> onDataWrittenHandler 104 [0, 0] desupported_state =
       Inr (desupported_state\<lparr>control_point := \<lparr>cp_command = 0, cp_category = 0\<rparr>\<rparr>)
   \<and> bit (enabled_new_alert_category
         (desupported_state\<lparr>control_point := \<lparr>cp_command = 0, cp_category = 0\<rparr>\<rparr>)) 0
   \<and> desupported_state\<lparr>control_point := \<lparr>cp_command = 0, cp_category = 0\<rparr>\<rparr> \<noteq>
       desupported_state"
  by (simp add: desupported_state_def eval_defs)

section \<open>Immediate notification and the alert-status array\<close>

text \<open>
  Claim C1. In \<open>scenario_state\<close> the categories 0 and 2 are enabled for new alerts and
  hold 3 and 5 alerts, and the button-press count is 7. The write of \<open>[4, 0xFF]\<close> to the
  control point first stores the category byte at index 255 of the alert-status array,
  outside its ten elements. The loop of the \<open>0xFF\<close> branch, run on the same state, makes
  two writes to the new-alert characteristic, and both carry the 32-bit button-press count
  7 rather than the counts 3 and 5.
\<close>

theorem notify_all_writes_button_press_count:
  "onDataWrittenHandler 104 [4, 0xFF] scenario_state = Inl (OutOfBounds 255)
   \<and> notify_all_new_alerts scenario_state =
       Inr (scenario_state\<lparr>gatt_server :=
              gatt_server scenario_state @ [(103, U32 7), (103, U32 7)]\<rparr>)"
  by (simp add: scenario_state_def eval_defs)

text \<open>
  Claim C3. The alert-status array is indexed with the category as received. A two-byte
  write with category \<open>0xFF\<close>, or with category 10, stores at that index, outside the
  array; command 5 for category \<open>0xFF\<close>, whose mask covers every category, reads the count
  at index 255 once any category is enabled for the unread status; and adding an alert to
  \<open>ANS_TYPE_ALL_ALERTS\<close> increments the count at index 255.
\<close>

theorem category_index_out_of_bounds:
  "onDataWrittenHandler 104 [0, 0xFF] scenario_D_state = Inl (OutOfBounds 255)
   \<and> onDataWrittenHandler 104 [5, 10] scenario_D_state = Inl (OutOfBounds 10)
   \<and> control_point_command 5 0xFF 0x03FF unread_only_state = Inl (OutOfBounds 255)
   \<and> addNewAlertToCategory ANS_TYPE_ALL_ALERTS scenario_D_state = Inl (OutOfBounds 255)"
  by (simp add: scenario_D_state_def unread_only_state_def eval_defs)


section \<open>Adding an alert\<close>

text \<open>
  Claim C2, as amended. From every well-formed state and for every concrete category \<open>c\<close>
  supported for new alerts, \<open>addNewAlertToCategory\<close> adds 1 to the count of \<open>c\<close>, an 8-bit
  value that wraps around. It writes the new count to the new-alert characteristic if and
  only if \<open>c\<close> is enabled for new alerts, and after that to the unread-status
  characteristic if and only if \<open>c\<close> is also enabled for the unread status: when \<open>c\<close> is
  not enabled for new alerts the function returns right after the increment.
\<close>

theorem addNewAlertToCategory_supported:
  assumes "wf_state s" and "c < ANS_ALERT_CATEGORY_COUNT"
    and "bit (supported_new_alert_category s) c"
  shows "addNewAlertToCategory c s =
     (let n = as_count (alert_status s ! c) + 1;
          s1 = s\<lparr>alert_status := (alert_status s)[c := (alert_status s ! c)\<lparr>as_count := n\<rparr>]\<rparr>;
          new_alert = (characteristics s ! new_alert_index, U8 n);
          unread_alert = (characteristics s ! unread_alert_status_index, U8 n)
      in if \<not> bit (enabled_new_alert_category s) c then Inr (False, s1)
         else if \<not> bit (enabled_unread_alert_category s) c
           then Inr (False, s1\<lparr>gatt_server := gatt_server s @ [new_alert]\<rparr>)
         else Inr (True, s1\<lparr>gatt_server := gatt_server s @ [new_alert, unread_alert]\<rparr>))"
proof -
  from assms(1) have l: "length (alert_status s) = ANS_ALERT_CATEGORY_COUNT"
    and k: "length (characteristics s) = 5"
    by (simp_all add: wf_state_length wf_state_def)
  have m: "getCategoryMaskFromId c = Inr (push_bit c 1)"
    using assms(2) by (rule getCategoryMaskFromId_concrete)
  show ?thesis
    unfolding addNewAlertToCategory_def m bind_res_Inr
    using assms(2,3) l k
    by (simp add: alert_status_write_def alert_status_at_def characteristic_at_def index_defs
        setCharacteristicValue_def Let_def and_exp_eq_0_iff and.commute)
qed

theorem addNewAlertToCategory_supported_witness:
  "wf_state scenario_D_state \<and> (0::nat) < ANS_ALERT_CATEGORY_COUNT
   \<and> bit (supported_new_alert_category scenario_D_state) 0
   \<and> addNewAlertToCategory 0 scenario_D_state =
       Inr (False, scenario_D_state\<lparr>
              alert_status := alert_statuses [1, 0, 0, 0, 0, 0, 0, 0, 0, 0],
              gatt_server := [(100, U16 1), (101, U16 1), (103, U8 1)]\<rparr>)"
proof -
  note w = wf_scenario_D_state
  have c: "(0::nat) < ANS_ALERT_CATEGORY_COUNT"
    by (simp add: ANS_ALERT_CATEGORY_COUNT_def)
  have b: "bit (supported_new_alert_category scenario_D_state) 0"
    by (simp add: scenario_D_state_def)
  show ?thesis
    using addNewAlertToCategory_supported [OF w c b] w c b
    by (simp add: scenario_D_state_def alert_statuses_def example_characteristics_def index_defs
        Let_def)
qed


text \<open>
  Claim C2 as stated fails in \<open>unread_only_state\<close>: category 0 is supported for new alerts
  and enabled for the unread status but not for new alerts, and adding an alert increments
  the count and makes no write to the server.
\<close>

theorem unread_push_blocked_counterexample:
  "bit (supported_new_alert_category unread_only_state) 0
   \<and> bit (enabled_unread_alert_category unread_only_state) 0
   \<and> addNewAlertToCategory 0 unread_only_state =
       Inr (False, unread_only_state\<lparr>alert_status :=
                     alert_statuses [1, 0, 0, 0, 0, 0, 0, 0, 0, 0]\<rparr>)
   \<and> gatt_server (unread_only_state\<lparr>alert_status :=
                     alert_statuses [1, 0, 0, 0, 0, 0, 0, 0, 0, 0]\<rparr>) =
       gatt_server unread_only_state"
  by (simp add: unread_only_state_def eval_defs)

end
